theory Spec2Isabelle
  imports Complex_Main
begin

section \<open>Conventions of the embedding\<close>

text \<open>
  The controller is MicroPython. Its numbers are modelled exactly: a Python \<open>float\<close> is a
  \<^typ>\<open>real\<close> (decimal literals denote the decimal they spell), a Python \<open>int\<close> is an
  \<^typ>\<open>int\<close>. Rounding error of the hardware floats is therefore outside the model; the one
  explicit rounding of the source, \<open>round(x, 2)\<close>, is modelled as such.
  A Python exception is a value of \<open>py_error\<close>, and a function that may raise returns
  \<open>py_error + 'a\<close> with \<open>Inl\<close> for the exception. \<open>None\<close> is \<open>None\<close> of an option type.
\<close>

datatype py_error = ValueError | IndexError | ZeroDivisionError | OverflowError

definition bind_res :: "py_error + 'a \<Rightarrow> ('a \<Rightarrow> py_error + 'b) \<Rightarrow> py_error + 'b" where
  "bind_res r f = (case r of Inl e \<Rightarrow> Inl e | Inr x \<Rightarrow> f x)"

definition py_index :: "'a list \<Rightarrow> nat \<Rightarrow> py_error + 'a" where
  \<comment> \<open>\<open>xs[i]\<close> for an index taken from a \<open>range\<close>: IndexError past the end.\<close>
  "py_index xs i = (if i < length xs then Inr (xs ! i) else Inl IndexError)"

section \<open>The inference engine (mlp\_et0\_predictotr.py)\<close>

subsection \<open>Constant tables\<close>

text \<open>
  The tables are the literals of the source. A literal in exponent notation, such as
  \<open>-2.0374896975933982e-147\<close>, is written as the quotient it denotes.
\<close>

definition SCALER_MEAN :: "real list" where
  "SCALER_MEAN =
    [30.523708026575687,
     67.71459507990662,
     18.924402944873407]"

definition SCALER_SCALE :: "real list" where
  "SCALER_SCALE =
    [3.5751311909811117,
     15.723214825593704,
     48.63370888697871]"

definition WEIGHTS_0 :: "real list list" where
  "WEIGHTS_0 =
    [[0.053256736082930384,
      0.4556614644198747,
      0.2956831098132046,
      0.390611203857762,
      - 0.49573082787825595,
      - 0.26712442338928777,
      - 0.4410235572435593,
      0.3151124934653342,
      - 20374896975933982 / 10 ^ 163,
      - 6093239597537111 / 10 ^ 121,
      - 0.20590779631744852,
      0.7770397050391823,
      0.3815640516921651,
      - 0.7107079169172609,
      - 0.002707618226200019,
      0.09307386063733245],
     [- 0.16791817815558072,
      0.08396617595601202,
      0.04362431244958579,
      - 0.42207432737964884,
      0.4441163443582557,
      - 0.48997516700048205,
      0.3513257685067875,
      - 0.004191927572604342,
      - 1239003522970632 / 10 ^ 189,
      - 14862611111652933 / 10 ^ 100,
      0.6979751005863711,
      - 0.13542948790788364,
      - 0.0042729855928596155,
      - 0.23871321463091302,
      - 0.02134113163304481,
      - 0.5223530333312946],
     [- 1.4340603348132237,
      - 0.05623138321566759,
      1.7802483055245486,
      1.304945190351235,
      0.9776157424983497,
      0.3139871734563571,
      0.6882998578682952,
      0.7509840348275748,
      - 16051166764073653 / 10 ^ 79,
      - 11210733326638123 / 10 ^ 201,
      - 1.7166667434170877,
      1.2848190660888648,
      - 1.1185322851024773,
      0.060356849975963626,
      1.2126690761625336,
      1.0232338882640604]]"

definition WEIGHTS_1 :: "real list list" where
  "WEIGHTS_1 =
    [[- 0.2847830853942866,
      - 0.04894336945156456,
      1.4583131433425092,
      15143253850143812 / 10 ^ 104,
      - 0.7264039088864096,
      0.42587725204011,
      0.11949961610694788,
      - 0.36591673142405284],
     [- 0.2728998340358246,
      0.24023646185119688,
      0.20597304427292465,
      8446412413067904 / 10 ^ 123,
      0.5784438720016305,
      - 0.46510428666278403,
      - 0.2148554543803399,
      - 0.16401721895707813],
     [0.7254694744452723,
      0.04824566701970705,
      - 0.173761248281168,
      6272802759676992 / 10 ^ 77,
      0.27607020056716475,
      - 0.23090869429103414,
      0.018611815288953167,
      0.49879112742900256],
     [0.7285477397563662,
      - 0.11779578123363092,
      - 0.30222207999295625,
      - 17846750911207596 / 10 ^ 128,
      0.6570346079299098,
      0.008007215865847352,
      0.08755759404773678,
      0.33411984891123125],
     [0.38566036718287616,
      - 0.11015269727783522,
      - 0.48726546431718504,
      - 7538667466497139 / 10 ^ 85,
      0.04892677014818802,
      0.08756335073999622,
      - 0.43456544962087124,
      0.37059220426233663],
     [0.7148494488495825,
      - 0.3706853387737396,
      - 0.03162654699387281,
      - 4968561076246304 / 10 ^ 115,
      0.13579624047710168,
      - 0.4750581572187915,
      - 0.4092720315250236,
      - 0.03229553741430834],
     [0.8141288665073991,
      0.29615426316505034,
      0.17812947377421573,
      3652025208159293 / 10 ^ 89,
      0.7728911644083547,
      - 0.32875867990806895,
      0.03664436727722565,
      0.4227755184441739],
     [0.6159664563699541,
      0.321362806693978,
      0.0037792297391362364,
      - 6357920888698645 / 10 ^ 85,
      0.1434289041190022,
      - 0.1258979069632879,
      0.15496368113763198,
      0.6679399768785638],
     [- 3624311282752862 / 10 ^ 67,
      - 9734464534961656 / 10 ^ 200,
      12227100458183595 / 10 ^ 176,
      36768523804866795 / 10 ^ 111,
      6254653188883465 / 10 ^ 87,
      23453651086205982 / 10 ^ 145,
      31130640866873725 / 10 ^ 76,
      15318229952195728 / 10 ^ 139],
     [25065569859141277 / 10 ^ 199,
      - 4736891421768007 / 10 ^ 130,
      25873796880493072 / 10 ^ 154,
      - 1352226087584374 / 10 ^ 70,
      6539773669408313 / 10 ^ 72,
      5221895600786153 / 10 ^ 117,
      575951463657817 / 10 ^ 200,
      - 14956683598249917 / 10 ^ 132],
     [- 0.7018792326039285,
      - 0.4566868649430578,
      - 0.37596590389659923,
      - 5214925711343096 / 10 ^ 201,
      - 0.9691546031029429,
      12066615381531683 / 10 ^ 125,
      1.0163128906141286,
      - 0.7468579314889985],
     [0.0063916082016488626,
      - 0.09838164764903408,
      0.5512446426326887,
      - 12147597931374713 / 10 ^ 115,
      0.5673896116942954,
      0.19613574244491702,
      - 0.4296771100893114,
      0.5888254689718364],
     [- 0.17109912955552728,
      0.04836384267418337,
      0.9328249649835226,
      - 3400976765060054 / 10 ^ 194,
      - 0.5248353305947155,
      0.2778542717164251,
      - 0.29509812468990027,
      - 0.3519718611312421],
     [- 0.5764362857485142,
      0.0031381195131248833,
      - 0.566643017773637,
      - 7490191247189335 / 10 ^ 69,
      - 0.14028206866182227,
      - 0.28066032131588753,
      - 0.20175338138508545,
      - 0.44347037925567717],
     [0.5809873822504297,
      - 0.14880527949533928,
      0.0006068468133094703,
      - 16157652203472783 / 10 ^ 91,
      0.3741559035340779,
      - 0.4424730018969445,
      0.16706676966043313,
      0.766240728279984],
     [0.09518650821029383,
      0.04455443646256285,
      0.24434554403252773,
      - 28504645051703925 / 10 ^ 188,
      0.3522879938885286,
      - 0.10786214919336565,
      - 0.6042224395835604,
      0.7340580447695334]]"

definition WEIGHTS_2 :: "real list list" where
  "WEIGHTS_2 =
    [[0.5664609979160748],
     [- 0.6356844552555531],
     [- 0.790921774976537],
     [10174909008196275 / 10 ^ 45],
     [0.6648815872830408],
     [- 0.7581555113582894],
     [- 0.5808776834343329],
     [0.6389814925338703]]"

definition BIASES_0 :: "real list" where
  "BIASES_0 =
    [- 0.0900813784109052,
     - 0.32239141701777874,
     0.9895977041668974,
     0.6468650926165534,
     0.8748347751862976,
     0.6685067157960585,
     0.508265633763575,
     0.7579812511181253,
     - 0.4624945007251862,
     - 0.34168576504309,
     - 0.4208648595662413,
     0.22662123091992215,
     - 0.054544680440006044,
     - 0.2806397368438346,
     0.8259691546186022,
     0.12604276939324174]"

definition BIASES_1 :: "real list" where
  "BIASES_1 =
    [0.6926480824329304,
     0.053241274443864485,
     - 0.18648836023061607,
     - 0.1507904253873391,
     0.6334437732214047,
     0.3417859021747934,
     0.2062404013732311,
     0.5709789833548106]"

definition BIASES_2 :: "real list" where
  "BIASES_2 =
    [- 0.5699131677038413]"

subsection \<open>Helper functions of the source\<close>

definition scale_step :: "real list \<Rightarrow> real list \<Rightarrow> real list \<Rightarrow> nat \<Rightarrow> real list \<Rightarrow> real list" where
  \<comment> \<open>One pass of the body of the loop in \<open>scale_features\<close>.\<close>
  "scale_step raw_features means scales i scaled =
     (if scales ! i = 0 then scaled[i := 0]
      else scaled[i := (raw_features ! i - means ! i) / scales ! i])"

definition scale_features :: "real list \<Rightarrow> real list \<Rightarrow> real list \<Rightarrow> py_error + real list" where
  "scale_features raw_features means scales =
     (if length raw_features \<noteq> length means \<or> length raw_features \<noteq> length scales
      then Inl ValueError
      else Inr (fold (scale_step raw_features means scales) [0..<length raw_features]
                  (replicate (length raw_features) 0)))"

definition relu :: "real \<Rightarrow> real" where
  "relu x = max 0 x"

definition identity :: "real \<Rightarrow> real" where
  "identity x = x"

definition dot_product :: "real list \<Rightarrow> real list \<Rightarrow> py_error + real" where
  \<comment> \<open>\<open>result = 0.0; for i in range(len(a)): result += a[i] * b[i]\<close>\<close>
  "dot_product vector_a vector_b =
     (if length vector_a \<noteq> length vector_b then Inl ValueError
      else Inr (fold (\<lambda>i result. result + vector_a ! i * vector_b ! i) [0..<length vector_a] 0))"

subsection \<open>predict\_et0\<close>

fun gather_column :: "real list list \<Rightarrow> nat \<Rightarrow> nat list \<Rightarrow> py_error + real list" where
  \<comment> \<open>The comprehension \<open>[W[j][i] for j in range(n)]\<close>; either index may raise.\<close>
  "gather_column W i [] = Inr []"
| "gather_column W i (j # js) =
     bind_res (py_index W j) (\<lambda>row.
     bind_res (py_index row i) (\<lambda>w.
     bind_res (gather_column W i js) (\<lambda>ws. Inr (w # ws))))"

fun layer_loop ::
  "(real \<Rightarrow> real) \<Rightarrow> real list list \<Rightarrow> real list \<Rightarrow> real list \<Rightarrow> nat list \<Rightarrow> real list
     \<Rightarrow> py_error + real list" where
  \<comment> \<open>\<open>for i in range(neurons): ...; output[i] = act(activation)\<close>\<close>
  "layer_loop act W B inp [] output = Inr output"
| "layer_loop act W B inp (i # is) output =
     bind_res (gather_column W i [0..<length inp]) (\<lambda>neuron_input_weights.
     bind_res (dot_product inp neuron_input_weights) (\<lambda>d.
     layer_loop act W B inp is (output[i := act (d + B ! i)])))"

definition layer :: "(real \<Rightarrow> real) \<Rightarrow> real list list \<Rightarrow> real list \<Rightarrow> real list \<Rightarrow> py_error + real list" where
  \<comment> \<open>\<open>n = len(B); output = [0.0] * n\<close> followed by the loop over \<open>range(n)\<close>.\<close>
  "layer act W B inp = layer_loop act W B inp [0..<length B] (replicate (length B) 0)"

definition predict_et0 :: "real list \<Rightarrow> py_error + real" where
  "predict_et0 raw_features =
     (if length raw_features \<noteq> length SCALER_MEAN then Inl ValueError
      else
        bind_res (scale_features raw_features SCALER_MEAN SCALER_SCALE) (\<lambda>scaled_input.
        bind_res (layer relu WEIGHTS_0 BIASES_0 scaled_input) (\<lambda>layer1_output.
        bind_res (layer relu WEIGHTS_1 BIASES_1 layer1_output) (\<lambda>layer2_output.
        bind_res (layer identity WEIGHTS_2 BIASES_2 layer2_output) (\<lambda>output_value.
        py_index output_value 0)))))"

subsection \<open>The pipeline as the specification words it\<close>

definition spec_standardize :: "real list \<Rightarrow> real list" where
  "spec_standardize features =
     map (\<lambda>i. if SCALER_SCALE ! i = 0 then 0
              else (features ! i - SCALER_MEAN ! i) / SCALER_SCALE ! i) [0..<3]"

definition spec_dot :: "real list \<Rightarrow> real list \<Rightarrow> real" where
  "spec_dot a b = (\<Sum>k<length a. a ! k * b ! k)"

definition spec_column :: "real list list \<Rightarrow> nat \<Rightarrow> real list" where
  \<comment> \<open>One element from every row: \<open>[W[j][i] for each row j]\<close>.\<close>
  "spec_column W i = map (\<lambda>row. row ! i) W"

definition spec_hidden1 :: "real list \<Rightarrow> real list" where
  "spec_hidden1 scaled =
     map (\<lambda>i. max 0 (spec_dot scaled (spec_column WEIGHTS_0 i) + BIASES_0 ! i)) [0..<16]"

definition spec_hidden2 :: "real list \<Rightarrow> real list" where
  "spec_hidden2 layer1 =
     map (\<lambda>i. max 0 (spec_dot layer1 (spec_column WEIGHTS_1 i) + BIASES_1 ! i)) [0..<8]"

definition spec_output :: "real list \<Rightarrow> real" where
  "spec_output layer2 = spec_dot layer2 (spec_column WEIGHTS_2 0) + BIASES_2 ! 0"

definition spec_predict_et0 :: "real list \<Rightarrow> real" where
  "spec_predict_et0 features =
     spec_output (spec_hidden2 (spec_hidden1 (spec_standardize features)))"


section \<open>Crop profiles and interpolation (main.py, main5.py)\<close>

type_synonym profile = "(int \<times> real) list"

definition crop_kc_profile :: "string \<Rightarrow> profile option" where
  "crop_kc_profile crop =
     (if crop = ''onion'' then
        Some [(0, 0.7), (15, 0.7), (21, 0.8), (24, 0.9), (29, 0.94), (33, 1.0), (82, 1.1), (106, 0.8)]
      else if crop = ''maize'' then
        Some [(0, 0.3), (20, 0.3), (40, 0.7), (60, 1.0), (80, 0.8), (100, 0.6)]
      else None)"

definition crop_root_profile :: "string \<Rightarrow> profile option" where
  "crop_root_profile crop =
     (if crop = ''onion'' then
        Some [(0, 0.05), (18, 0.25), (38, 0.43), (73, 0.60), (106, 0.60)]
      else if crop = ''maize'' then
        Some [(0, 0.30), (20, 0.50), (40, 0.80), (60, 1.20), (80, 1.50)]
      else None)"

fun bracket_scan :: "int \<Rightarrow> profile \<Rightarrow> real option" where
  \<comment> \<open>main.py: the loop over \<open>zip(profile, profile[1:])\<close>; \<open>None\<close> when it runs to its end.\<close>
  "bracket_scan day ((d0, v0) # (d1, v1) # rest) =
     (if d0 \<le> day \<and> day \<le> d1
      then (if d1 - d0 \<noteq> 0
            then Some (v0 + (v1 - v0) * of_int (day - d0) / of_int (d1 - d0))
            else Some v0)
      else bracket_scan day ((d1, v1) # rest))"
| "bracket_scan day profile = None"

definition linear_interpolate :: "int \<Rightarrow> profile \<Rightarrow> real" where
  \<comment> \<open>main.py\<close>
  "linear_interpolate day profile =
     (if profile = [] then 0
      else if day \<le> fst (hd profile) then snd (hd profile)
      else if day \<ge> fst (last profile) then snd (last profile)
      else (case bracket_scan day profile of
              Some v \<Rightarrow> v
            | None \<Rightarrow> snd (last profile)))"

definition bracket_value :: "profile \<Rightarrow> nat \<Rightarrow> int \<Rightarrow> real" where
  \<comment> \<open>The specification's \<open>v0 + (v1-v0)*(day-d0)/(d1-d0)\<close> for the pair at positions \<open>i\<close>, \<open>i+1\<close>.\<close>
  "bracket_value p i day =
     snd (p ! i) + (snd (p ! Suc i) - snd (p ! i)) * of_int (day - fst (p ! i))
                    / of_int (fst (p ! Suc i) - fst (p ! i))"

fun bracket_scan5 :: "int \<Rightarrow> profile \<Rightarrow> py_error + real option" where
  \<comment> \<open>main5.py: the same loop without the guard on \<open>d1 - d0\<close>; the division may raise.\<close>
  "bracket_scan5 day ((d0, v0) # (d1, v1) # rest) =
     (if d0 \<le> day \<and> day \<le> d1
      then (if d1 - d0 = 0 then Inl ZeroDivisionError
            else Inr (Some (v0 + (v1 - v0) * of_int (day - d0) / of_int (d1 - d0))))
      else bracket_scan5 day ((d1, v1) # rest))"
| "bracket_scan5 day profile = Inr None"

definition linear_interpolate5 :: "int \<Rightarrow> profile \<Rightarrow> py_error + real" where
  \<comment> \<open>main5.py: no test for the empty profile, so \<open>profile[0]\<close> raises there.\<close>
  "linear_interpolate5 day profile =
     (if profile = [] then Inl IndexError
      else if day \<le> fst (hd profile) then Inr (snd (hd profile))
      else if day \<ge> fst (last profile) then Inr (snd (last profile))
      else bind_res (bracket_scan5 day profile) (\<lambda>r.
             case r of Some v \<Rightarrow> Inr v | None \<Rightarrow> Inr (snd (last profile))))"

section \<open>Day clock (main.py, main5.py)\<close>



section \<open>Irrigation calculator (main.py, main5.py)\<close>

definition round_half_even :: "real \<Rightarrow> int" where
  "round_half_even x =
     (let f = \<lfloor>x\<rfloor>; d = x - of_int f
      in if d < 1 / 2 then f else if 1 / 2 < d then f + 1 else if even f then f else f + 1)"

definition py_round2 :: "real \<Rightarrow> real" where
  \<comment> \<open>\<open>round(x, 2)\<close>: to the nearest multiple of 0.01, ties to the even one.\<close>
  "py_round2 x = of_int (round_half_even (x * 100)) / 100"

definition soil_available_water_depth :: "real option \<Rightarrow> real \<Rightarrow> real \<Rightarrow> real \<Rightarrow> real" where
  \<comment> \<open>main.py. The \<open>float()\<close> conversions cannot fail on numbers; the warning is only logged.\<close>
  "soil_available_water_depth vwc_pct rz_depth_mm fc_pct pwp_pct =
     (case vwc_pct of
        None \<Rightarrow> 0
      | Some vwc \<Rightarrow>
          (let \<theta> = vwc / 100; fc = fc_pct / 100; pwp = pwp_pct / 100; rz = rz_depth_mm
           in if fc \<le> pwp then 0
              else (let taw_fraction = fc - pwp;
                        taw_mm = taw_fraction * rz;
                        current_water_above_pwp_fraction = max 0 (\<theta> - pwp);
                        current_water_above_pwp_mm = current_water_above_pwp_fraction * rz;
                        available_mm = min current_water_above_pwp_mm taw_mm
                    in py_round2 available_mm)))"

definition soil_available_water_depth5 :: "real option \<Rightarrow> real \<Rightarrow> real \<Rightarrow> real \<Rightarrow> real" where
  \<comment> \<open>main5.py: as above, with the test \<open>rz_depth_mm <= 0\<close> first.\<close>
  "soil_available_water_depth5 vwc_pct rz_depth_mm fc_pct pwp_pct =
     (case vwc_pct of
        None \<Rightarrow> 0
      | Some vwc \<Rightarrow>
          (if rz_depth_mm \<le> 0 then 0
           else (let \<theta> = vwc / 100; fc = fc_pct / 100; pwp = pwp_pct / 100
                 in if fc \<le> pwp then 0
                    else (let taw_fraction = fc - pwp;
                              taw_mm = taw_fraction * rz_depth_mm;
                              current_water_above_pwp_fraction = max 0 (\<theta> - pwp);
                              current_water_above_pwp_mm =
                                current_water_above_pwp_fraction * rz_depth_mm;
                              available_mm = min current_water_above_pwp_mm taw_mm
                          in py_round2 available_mm))))"

datatype log_line = PumpFlowRateMustBePositive

definition irrigation_time ::
  "real \<Rightarrow> real \<Rightarrow> real \<Rightarrow> real \<Rightarrow> real \<Rightarrow> (real \<times> real) \<times> log_line list" where
  \<comment> \<open>main.py: returns \<open>(time_seconds, ETc)\<close>; the second component is what it logs.\<close>
  "irrigation_time Kc ET0 avail_mm area_m2 flow_lph =
     (let ETc = ET0 * Kc;
          req_mm = max 0 ETc;
          req_liters = (req_mm / 1000) * area_m2 * 1000
      in if flow_lph \<le> 0 then ((0, ETc), [PumpFlowRateMustBePositive])
         else ((if req_liters > 0 then (req_liters / flow_lph) * 3600 else 0, ETc), []))"

definition irrigation_time5 ::
  "real \<Rightarrow> real \<Rightarrow> real \<Rightarrow> real \<Rightarrow> (real \<times> real) \<times> log_line list" where
  \<comment> \<open>main5.py: \<open>ET0\<close> and \<open>Kc\<close> are clamped first; there is no \<open>avail_mm\<close> parameter.\<close>
  "irrigation_time5 Kc ET0 area_m2 flow_lph =
     (let ET0' = (if ET0 < 0 then 0 else ET0);
          Kc' = (if Kc < 0 then 0 else Kc);
          ETc = ET0' * Kc';
          req_mm = max 0 ETc;
          req_liters = req_mm * area_m2
      in if flow_lph \<le> 0 then ((0, ETc), [PumpFlowRateMustBePositive])
         else ((if req_liters > 0 then (req_liters / flow_lph) * 3600 else 0, ETc), []))"

definition spec_irrigation_time ::
  "real \<Rightarrow> real \<Rightarrow> real \<Rightarrow> real \<Rightarrow> real \<Rightarrow> (real \<times> real) \<times> log_line list" where
  \<comment> \<open>The calculation as the specification words it.\<close>
  "spec_irrigation_time kc et0 available_mm area_m2 flow_lph =
     (let kc' = max 0 kc; et0' = max 0 et0;
          etc = et0' * kc';
          required_liters = etc * area_m2
      in if flow_lph \<le> 0 then ((0, etc), [PumpFlowRateMustBePositive])
         else ((if required_liters > 0 then (required_liters / flow_lph) * 3600 else 0, etc), []))"

definition spec_available_water_depth :: "real option \<Rightarrow> real \<Rightarrow> real \<Rightarrow> real \<Rightarrow> real" where
  \<comment> \<open>The calculation as the specification words it.\<close>
  "spec_available_water_depth vwc_pct root_zone_mm field_capacity_pct wilting_point_pct =
     (case vwc_pct of
        None \<Rightarrow> 0
      | Some vwc \<Rightarrow>
          if root_zone_mm \<le> 0 then 0
          else if field_capacity_pct \<le> wilting_point_pct then 0
          else py_round2
                 (min (max 0 (vwc / 100 - wilting_point_pct / 100) * root_zone_mm)
                      ((field_capacity_pct / 100 - wilting_point_pct / 100) * root_zone_mm)))"

section \<open>Daily ET0 update of the main loop (main.py, main5.py)\<close>

text \<open>
  Step 4 of the daily rollover. The state is the four variables \<open>last_tmax\<close>, \<open>last_rh\<close>,
  \<open>last_energy\<close> (\<open>None\<close> until a fetch succeeds) and \<open>last_et0\<close>. The result of
  \<open>fetch_weather()\<close> (\<open>None\<close> on failure) and the prediction function are inputs:
  main.py binds \<open>predict_function\<close> at import time, main5.py calls \<open>mlp_model.predict_et0\<close>;
  \<open>Inl\<close> stands for the function raising.
\<close>

record et0_state =
  last_tmax :: "real option"
  last_rh :: "real option"
  last_energy :: "real option"
  last_et0 :: real

definition initial_et0_state :: et0_state where
  "initial_et0_state = \<lparr>last_tmax = None, last_rh = None, last_energy = None, last_et0 = 0\<rparr>"

definition update_et0 ::
  "(real list \<Rightarrow> py_error + real) \<Rightarrow> (real \<times> real \<times> real) option \<Rightarrow> et0_state \<Rightarrow> et0_state" where
  \<comment> \<open>main.py, lines 443-455: the prediction is stored as it is returned.\<close>
  "update_et0 predict_function weather_data_tuple s =
     (case weather_data_tuple of
        Some (tmax, rh, energy) \<Rightarrow>
          (let s1 = s\<lparr>last_tmax := Some tmax, last_rh := Some rh, last_energy := Some energy\<rparr>
           in case predict_function [tmax, rh, energy] of
                Inr et0 \<Rightarrow> s1\<lparr>last_et0 := et0\<rparr>
              | Inl e \<Rightarrow> s1)
      | None \<Rightarrow>
          (if last_tmax s = None then s\<lparr>last_et0 := 0\<rparr> else s))"

definition update_et0_5 ::
  "(real list \<Rightarrow> py_error + real) \<Rightarrow> (real \<times> real \<times> real) option \<Rightarrow> et0_state \<Rightarrow> et0_state" where
  \<comment> \<open>main5.py, lines 659-702: \<open>last_et0 = max(0.0, raw_et0)\<close> on both prediction paths.\<close>
  "update_et0_5 predict_et0_fn weather_data_tuple s =
     (case weather_data_tuple of
        Some (tmax, rh, energy) \<Rightarrow>
          (let s1 = s\<lparr>last_tmax := Some tmax, last_rh := Some rh, last_energy := Some energy\<rparr>
           in case predict_et0_fn [tmax, rh, energy] of
                Inr raw_et0 \<Rightarrow> s1\<lparr>last_et0 := max 0 raw_et0\<rparr>
              | Inl e \<Rightarrow> s1)
      | None \<Rightarrow>
          (case (last_tmax s, last_rh s, last_energy s) of
             (Some tmax, Some rh, Some energy) \<Rightarrow>
               (case predict_et0_fn [tmax, rh, energy] of
                  Inr raw_et0 \<Rightarrow> s\<lparr>last_et0 := max 0 raw_et0\<rparr>
                | Inl e \<Rightarrow> s)
           | _ \<Rightarrow> s\<lparr>last_et0 := 0\<rparr>))"

fun run_et0_5 ::
  "(real list \<Rightarrow> py_error + real) \<Rightarrow> (real \<times> real \<times> real) option list \<Rightarrow> et0_state \<Rightarrow> et0_state" where
  \<comment> \<open>main5.py over a sequence of daily rollovers, one fetch result per day.\<close>
  "run_et0_5 f [] s = s"
| "run_et0_5 f (w # ws) s = run_et0_5 f ws (update_et0_5 f w s)"

section \<open>Pump state of the main loop (main.py)\<close>

record pump_state =
  pump_running :: bool
  pump_start_time :: real
  current_pump_run_duration :: real

definition initial_pump_state :: pump_state where
  "initial_pump_state =
     \<lparr>pump_running = False, pump_start_time = 0, current_pump_run_duration = 0\<rparr>"

datatype pump_command = PUMP_ON | PUMP_OFF

text \<open>
  A publish attempt is the command with the value \<open>publish_message\<close> returned
  (\<open>False\<close> when the client is missing or the publish raised).
\<close>

type_synonym publish_attempt = "pump_command \<times> bool"

definition daily_pump_decision ::
  "real \<Rightarrow> bool \<Rightarrow> real \<Rightarrow> pump_state \<Rightarrow> pump_state \<times> publish_attempt list" where
  \<comment> \<open>main.py, lines 460-473. \<open>published\<close>: result of the one publish; \<open>t\<close>: \<open>time.time()\<close>
      read when the ON command has gone out.\<close>
  "daily_pump_decision pump_time_s published t s =
     (if pump_time_s > 0.5 then
        (if \<not> pump_running s then
           (if published
            then (s\<lparr>pump_running := True, pump_start_time := t,
                     current_pump_run_duration := pump_time_s\<rparr>, [(PUMP_ON, True)])
            else (s\<lparr>pump_running := False, current_pump_run_duration := 0\<rparr>,
                  [(PUMP_ON, False)]))
         else (s\<lparr>current_pump_run_duration := pump_time_s\<rparr>, []))
      else
        (if pump_running s then
           (if published
            then (s\<lparr>pump_running := False, current_pump_run_duration := 0\<rparr>,
                  [(PUMP_OFF, True)])
            else (s, [(PUMP_OFF, False)]))
         else (s\<lparr>pump_running := False, current_pump_run_duration := 0\<rparr>, [])))"

definition pump_off_check ::
  "real \<Rightarrow> bool \<Rightarrow> pump_state \<Rightarrow> pump_state \<times> publish_attempt list" where
  \<comment> \<open>main.py, lines 482-488. \<open>t\<close>: \<open>time.time()\<close> read by the check.\<close>
  "pump_off_check t published s =
     (if pump_running s then
        (let elapsed_time = t - pump_start_time s
         in if elapsed_time \<ge> current_pump_run_duration s then
              (if published
               then (s\<lparr>pump_running := False, current_pump_run_duration := 0\<rparr>,
                     [(PUMP_OFF, True)])
               else (s, [(PUMP_OFF, False)]))
            else (s, []))
      else (s, []))"

text \<open>
  What one pass of the \<open>while True\<close> loop receives from outside, as far as the pump is
  concerned: whether the MQTT reconnect failed (the pass then ends at \<open>continue\<close>), the pump
  time computed by the daily logic when the date has changed (\<open>None\<close> on a pass without
  rollover), the clock readings and the results of the publishes.
\<close>

record tick_input =
  reconnect_failed :: bool
  rollover :: "real option"
  daily_published :: bool
  time_on :: real
  time_check :: real
  off_published :: bool

definition tick :: "tick_input \<Rightarrow> pump_state \<Rightarrow> pump_state \<times> publish_attempt list" where
  "tick i s =
     (if reconnect_failed i then (s, [])
      else
        (let (s1, c1) = (case rollover i of
                           None \<Rightarrow> (s, [])
                         | Some pump_time_s \<Rightarrow>
                             daily_pump_decision pump_time_s (daily_published i) (time_on i) s);
             (s2, c2) = pump_off_check (time_check i) (off_published i) s1
         in (s2, c1 @ c2)))"



definition due :: "pump_state \<Rightarrow> tick_input \<Rightarrow> bool" where
  \<comment> \<open>Elapsed time since the recorded start has reached the recorded target.\<close>
  "due s i \<longleftrightarrow> time_check i - pump_start_time s \<ge> current_pump_run_duration s"



definition pass_at :: "real option \<Rightarrow> real \<Rightarrow> bool \<Rightarrow> tick_input" where
  \<comment> \<open>A pass that reaches the pump logic at clock reading \<open>t\<close> and whose publishes return \<open>ok\<close>.\<close>
  "pass_at r t ok =
     \<lparr>reconnect_failed = False, rollover = r, daily_published = ok,
      time_on = t, time_check = t, off_published = ok\<rparr>"

section \<open>Configuration over MQTT (main.py)\<close>

definition TOPIC_SOIL_SUB :: string where "TOPIC_SOIL_SUB = ''esp32/soilMoisture''"
definition TOPIC_CONFIG_CROP :: string where "TOPIC_CONFIG_CROP = ''User/Input/Crop''"
definition TOPIC_CONFIG_PLANTING_DATE :: string where
  "TOPIC_CONFIG_PLANTING_DATE = ''User/Input/Planting/Date''"
definition TOPIC_CONFIG_PLANTS_NUMBER :: string where
  "TOPIC_CONFIG_PLANTS_NUMBER = ''User/Input/Plants/Number''"
definition TOPIC_CONFIG_PLANTS_SPACING :: string where
  "TOPIC_CONFIG_PLANTS_SPACING = ''User/Input/Plants/Spacing''"
definition TOPIC_CONFIG_ROW_SPACING :: string where
  "TOPIC_CONFIG_ROW_SPACING = ''User/Input/Row/Spacing''"
definition TOPIC_CONFIG_PUMP_FLOWRATE :: string where
  "TOPIC_CONFIG_PUMP_FLOWRATE = ''User/Input/Pump/Flowrate''"

definition required_configs :: "string list" where
  "required_configs =
     [''crop'', ''planting_date'', ''plants_number'', ''plant_spacing_cm'', ''row_spacing_cm'',
      ''pump_flow_lph'']"

datatype config_value = ConfigStr string | ConfigInt int | ConfigFloat real

record callback_state =
  soil_buffer :: "real list"
  sampling_active :: bool
  config_params :: "string \<rightharpoonup> config_value"

definition initial_callback_state :: callback_state where
  "initial_callback_state =
     \<lparr>soil_buffer = [], sampling_active = False, config_params = Map.empty\<rparr>"

datatype log_level = DEBUG | CONFIG | ERROR

subsection \<open>String helpers\<close>

definition is_space :: "char \<Rightarrow> bool" where
  "is_space c \<longleftrightarrow> c \<in> {CHR '' '', CHR 0x09, CHR 0x0A, CHR 0x0B, CHR 0x0C, CHR 0x0D}"

definition py_strip :: "string \<Rightarrow> string" where
  "py_strip s = rev (dropWhile is_space (rev (dropWhile is_space s)))"

definition ascii_lower :: "char \<Rightarrow> char" where
  "ascii_lower c =
     (case map_of (zip ''ABCDEFGHIJKLMNOPQRSTUVWXYZ'' ''abcdefghijklmnopqrstuvwxyz'') c of
        Some l \<Rightarrow> l
      | None \<Rightarrow> c)"

definition py_lower :: "string \<Rightarrow> string" where
  \<comment> \<open>\<open>str.lower()\<close> on ASCII; other bytes are left as they are.\<close>
  "py_lower s = map ascii_lower s"

fun split_on :: "char \<Rightarrow> string \<Rightarrow> string list" where
  \<comment> \<open>\<open>s.split(c)\<close>: one more part than there are separators.\<close>
  "split_on c [] = [[]]"
| "split_on c (x # xs) =
     (if x = c then [] # split_on c xs
      else (case split_on c xs of w # ws \<Rightarrow> (x # w) # ws | [] \<Rightarrow> [[x]]))"

text \<open>
  Python's \<open>int()\<close> and \<open>float()\<close> are parameters of the callback (\<open>None\<close> when they raise
  ValueError). \<open>dec_int\<close> and \<open>dec_float\<close> are the two conversions on plain signed decimal
  numerals, used where a concrete payload is evaluated.
\<close>

fun digits_value :: "string \<Rightarrow> nat \<Rightarrow> nat option" where
  "digits_value [] acc = Some acc"
| "digits_value (c # cs) acc =
     (let n = (of_char c :: nat)
      in if 48 \<le> n \<and> n \<le> 57 then digits_value cs (10 * acc + (n - 48)) else None)"

definition dec_nat :: "string \<Rightarrow> nat option" where
  "dec_nat s = (if s = [] then None else digits_value s 0)"

definition dec_int :: "string \<Rightarrow> int option" where
  "dec_int s =
     (if s \<noteq> [] \<and> hd s = CHR ''-'' then map_option (\<lambda>n. - int n) (dec_nat (tl s))
      else if s \<noteq> [] \<and> hd s = CHR ''+'' then map_option int (dec_nat (tl s))
      else map_option int (dec_nat s))"

definition dec_unsigned :: "string \<Rightarrow> real option" where
  "dec_unsigned s =
     (case split_on CHR ''.'' s of
        [ip] \<Rightarrow> map_option real (dec_nat ip)
      | [ip, fp] \<Rightarrow>
          (if ip = [] \<and> fp = [] then None
           else (case (digits_value ip 0, digits_value fp 0) of
                   (Some a, Some b) \<Rightarrow> Some (real a + real b / 10 ^ length fp)
                 | _ \<Rightarrow> None))
      | _ \<Rightarrow> None)"

definition dec_float :: "string \<Rightarrow> real option" where
  "dec_float s =
     (if s \<noteq> [] \<and> hd s = CHR ''-'' then map_option uminus (dec_unsigned (tl s))
      else if s \<noteq> [] \<and> hd s = CHR ''+'' then dec_unsigned (tl s)
      else dec_unsigned s)"

subsection \<open>The callback and the wait for configuration\<close>

definition set_config :: "string \<Rightarrow> config_value \<Rightarrow> callback_state \<Rightarrow> callback_state" where
  \<comment> \<open>\<open>config_params[key] = value\<close>\<close>
  "set_config key v s = s\<lparr>config_params := (config_params s)(key \<mapsto> v)\<rparr>"

definition sub_cb ::
  "(string \<Rightarrow> int option) \<Rightarrow> (string \<Rightarrow> real option) \<Rightarrow> string \<Rightarrow> string \<Rightarrow> callback_state
     \<Rightarrow> callback_state \<times> log_level list" where
  \<comment> \<open>main.py, lines 183-216. The second component lists the level of every \<open>log_message\<close>
      call, in order. In the four numeric branches the assignment to \<open>config_params\<close> is a
      statement of its own; only the choice of the log line depends on the sign.\<close>
  "sub_cb to_int to_float topic_str msg s =
     (let msg_str = py_strip msg in
      if topic_str = TOPIC_SOIL_SUB then
        (if sampling_active s then
           (case to_float msg_str of
              Some v \<Rightarrow> (s\<lparr>soil_buffer := soil_buffer s @ [v]\<rparr>, [DEBUG])
            | None \<Rightarrow> (s, [DEBUG, ERROR]))
         else (s, [DEBUG]))
      else if topic_str = TOPIC_CONFIG_CROP then
        (let crop_name = py_lower msg_str in
         if crop_kc_profile crop_name \<noteq> None
         then (set_config ''crop'' (ConfigStr crop_name) s, [DEBUG, CONFIG])
         else (s, [DEBUG, ERROR]))
      else if topic_str = TOPIC_CONFIG_PLANTING_DATE then
        (case map to_int (split_on CHR ''-'' msg_str) of
           [Some y, Some m, Some d] \<Rightarrow>
             (if 1 \<le> m \<and> m \<le> 12 \<and> 1 \<le> d \<and> d \<le> 31
              then (set_config ''planting_date'' (ConfigStr msg_str) s, [DEBUG, CONFIG])
              else (s, [DEBUG, ERROR]))
         | _ \<Rightarrow> (s, [DEBUG, ERROR]))
      else if topic_str = TOPIC_CONFIG_PLANTS_NUMBER then
        (case to_int msg_str of
           Some num \<Rightarrow> (set_config ''plants_number'' (ConfigInt num) s,
                        [DEBUG, if num > 0 then CONFIG else ERROR])
         | None \<Rightarrow> (s, [DEBUG, ERROR]))
      else if topic_str = TOPIC_CONFIG_PLANTS_SPACING then
        (case to_float msg_str of
           Some spacing \<Rightarrow> (set_config ''plant_spacing_cm'' (ConfigFloat spacing) s,
                            [DEBUG, if spacing > 0 then CONFIG else ERROR])
         | None \<Rightarrow> (s, [DEBUG, ERROR]))
      else if topic_str = TOPIC_CONFIG_ROW_SPACING then
        (case to_float msg_str of
           Some spacing \<Rightarrow> (set_config ''row_spacing_cm'' (ConfigFloat spacing) s,
                            [DEBUG, if spacing > 0 then CONFIG else ERROR])
         | None \<Rightarrow> (s, [DEBUG, ERROR]))
      else if topic_str = TOPIC_CONFIG_PUMP_FLOWRATE then
        (case to_float msg_str of
           Some flow \<Rightarrow> (set_config ''pump_flow_lph'' (ConfigFloat flow) s,
                         [DEBUG, if flow > 0 then CONFIG else ERROR])
         | None \<Rightarrow> (s, [DEBUG, ERROR]))
      else (s, [DEBUG]))"

definition config_complete :: "callback_state \<Rightarrow> bool" where
  \<comment> \<open>\<open>not (required_configs - set(config_params.keys()))\<close>\<close>
  "config_complete s \<longleftrightarrow> list_all (\<lambda>k. config_params s k \<noteq> None) required_configs"

text \<open>
  One iteration of the loop in \<open>wait_for_configuration\<close> tests completeness, then the
  deadline, then calls \<open>check_msg()\<close>, which hands at most one message to the callback. The
  list gives what each iteration meets; when it ends no further message arrives.
\<close>

datatype poll = Received string string | Idle | ConnectionLost | Expired

fun wait_for_configuration ::
  "(string \<Rightarrow> int option) \<Rightarrow> (string \<Rightarrow> real option) \<Rightarrow> poll list \<Rightarrow> callback_state
     \<Rightarrow> bool \<times> callback_state" where
  "wait_for_configuration to_int to_float [] s = (config_complete s, s)"
| "wait_for_configuration to_int to_float (e # es) s =
     (if config_complete s then (True, s)
      else (case e of
              Expired \<Rightarrow> (False, s)
            | ConnectionLost \<Rightarrow> (False, s)
            | Idle \<Rightarrow> wait_for_configuration to_int to_float es s
            | Received topic msg \<Rightarrow>
                wait_for_configuration to_int to_float es (fst (sub_cb to_int to_float topic msg s))))"

section \<open>Inference engine: the source computes the specified pipeline\<close>


lemma fold_update_upt:
  "k \<le> length xs \<Longrightarrow>
   fold (\<lambda>i ys. ys[i := f i]) [0..<k] xs = map f [0..<k] @ drop k xs"
proof (induction k)
  case 0
  then show ?case by simp
next
  case (Suc k)
  then have "k < length xs" by simp
  then have "(map f [0..<k] @ drop k xs)[k := f k] = map f [0..<k] @ (drop k xs)[0 := f k]"
    by (simp add: list_update_append)
  moreover have "(drop k xs)[0 := f k] = f k # drop (Suc k) xs"
    using \<open>k < length xs\<close> by (metis Cons_nth_drop_Suc list_update_code(2))
  ultimately show ?case using Suc by simp
qed

lemma fold_update_all:
  "length xs = n \<Longrightarrow> fold (\<lambda>i ys. ys[i := f i]) [0..<n] xs = map f [0..<n]"
  using fold_update_upt [of n xs f] by simp

lemma fold_add_upt:
  "fold (\<lambda>i (r::real). r + g i) [0..<n] r0 = r0 + (\<Sum>k<n. g k)"
  by (induction n arbitrary: r0) (simp_all add: add.assoc)

lemma dot_product_eq:
  "length a = length b \<Longrightarrow> dot_product a b = Inr (spec_dot a b)"
  by (simp add: dot_product_def spec_dot_def fold_add_upt)

lemma gather_column_eq:
  "\<forall>j\<in>set js. j < length W \<and> i < length (W ! j) \<Longrightarrow>
   gather_column W i js = Inr (map (\<lambda>j. W ! j ! i) js)"
  by (induction js) (simp_all add: bind_res_def py_index_def)

lemma gather_column_all:
  assumes "\<forall>row\<in>set W. i < length row"
  shows "gather_column W i [0..<length W] = Inr (spec_column W i)"
proof -
  have "gather_column W i [0..<length W] = Inr (map (\<lambda>j. W ! j ! i) [0..<length W])"
    using assms by (intro gather_column_eq) simp
  also have "map (\<lambda>j. W ! j ! i) [0..<length W] = map (\<lambda>row. row ! i) W"
    by (rule nth_equalityI) simp_all
  finally show ?thesis by (simp add: spec_column_def)
qed

lemma layer_loop_eq:
  assumes "length inp = length W" and "\<forall>i\<in>set is. \<forall>row\<in>set W. i < length row"
  shows "layer_loop act W B inp is out =
         Inr (fold (\<lambda>i ys. ys[i := act (spec_dot inp (spec_column W i) + B ! i)]) is out)"
  using assms(2)
proof (induction "is" arbitrary: out)
  case Nil
  then show ?case by simp
next
  case (Cons i "is")
  have g: "gather_column W i [0..<length inp] = Inr (spec_column W i)"
    using Cons.prems assms(1) by (simp add: gather_column_all)
  have d: "dot_product inp (spec_column W i) = Inr (spec_dot inp (spec_column W i))"
    using assms(1) by (simp add: dot_product_eq spec_column_def)
  show ?case using Cons by (simp add: g d bind_res_def)
qed

lemma layer_eq:
  assumes "length inp = length W" and "\<forall>row\<in>set W. length row = length B"
  shows "layer act W B inp =
         Inr (map (\<lambda>i. act (spec_dot inp (spec_column W i) + B ! i)) [0..<length B])"
  using assms by (simp add: layer_def layer_loop_eq fold_update_all)

lemma scale_features_eq:
  assumes "length raw = length means" and "length raw = length scales"
  shows "scale_features raw means scales =
         Inr (map (\<lambda>i. if scales ! i = 0 then 0 else (raw ! i - means ! i) / scales ! i)
                [0..<length raw])"
proof -
  have "scale_step raw means scales =
        (\<lambda>i ys. ys[i := (if scales ! i = 0 then 0 else (raw ! i - means ! i) / scales ! i)])"
    by (auto simp: scale_step_def fun_eq_iff)
  then show ?thesis using assms by (simp add: scale_features_def fold_update_all)
qed

lemma dims:
  "length SCALER_MEAN = 3" "length SCALER_SCALE = 3"
  "length WEIGHTS_0 = 3" "\<forall>row\<in>set WEIGHTS_0. length row = 16" "length BIASES_0 = 16"
  "length WEIGHTS_1 = 16" "\<forall>row\<in>set WEIGHTS_1. length row = 8" "length BIASES_1 = 8"
  "length WEIGHTS_2 = 8" "\<forall>row\<in>set WEIGHTS_2. length row = 1" "length BIASES_2 = 1"
  by (simp_all add: SCALER_MEAN_def SCALER_SCALE_def WEIGHTS_0_def WEIGHTS_1_def WEIGHTS_2_def
        BIASES_0_def BIASES_1_def BIASES_2_def)

lemma predict_et0_refines:
  assumes "length features = 3"
  shows "predict_et0 features = Inr (spec_predict_et0 features)"
proof -
  have s: "scale_features features SCALER_MEAN SCALER_SCALE = Inr (spec_standardize features)"
    using assms by (simp add: scale_features_eq dims spec_standardize_def)
  have l0: "length (spec_standardize features) = 3" by (simp add: spec_standardize_def)
  have h1: "layer relu WEIGHTS_0 BIASES_0 (spec_standardize features)
            = Inr (spec_hidden1 (spec_standardize features))"
    using l0 by (simp add: layer_eq dims spec_hidden1_def relu_def)
  have l1: "length (spec_hidden1 (spec_standardize features)) = 16" by (simp add: spec_hidden1_def)
  have h2: "layer relu WEIGHTS_1 BIASES_1 (spec_hidden1 (spec_standardize features))
            = Inr (spec_hidden2 (spec_hidden1 (spec_standardize features)))"
    using l1 by (simp add: layer_eq dims spec_hidden2_def relu_def)
  have l2: "length (spec_hidden2 (spec_hidden1 (spec_standardize features))) = 8"
    by (simp add: spec_hidden2_def)
  have h3: "layer identity WEIGHTS_2 BIASES_2 (spec_hidden2 (spec_hidden1 (spec_standardize features)))
            = Inr [spec_output (spec_hidden2 (spec_hidden1 (spec_standardize features)))]"
    using l2 by (simp add: layer_eq dims spec_output_def identity_def)
  show ?thesis
    using assms by (simp add: predict_et0_def dims s h1 h2 h3 bind_res_def py_index_def spec_predict_et0_def)
qed


text \<open>
  Claim C1. For every list of exactly three features, \<open>predict_et0\<close> returns (raising
  nothing) the value of the pipeline of the specification: standardisation with the zero-scale
  guard, sixteen ReLU neurons over the columns of \<open>WEIGHTS_0\<close>, eight ReLU neurons over the
  columns of \<open>WEIGHTS_1\<close>, and the identity output neuron over column 0 of
  \<open>WEIGHTS_2\<close>. Every weight vector is a column: one element from every row.
\<close>

theorem C1_predict_et0_pipeline:
  "length features = 3 \<Longrightarrow> predict_et0 features = Inr (spec_predict_et0 features)"
  by (rule predict_et0_refines)

theorem C1_predict_et0_pipeline_witness:
  "length [30.5, 55.2, 250.7 :: real] = 3 \<and>
   predict_et0 [30.5, 55.2, 250.7] = Inr (spec_predict_et0 [30.5, 55.2, 250.7])"
  using C1_predict_et0_pipeline [of "[30.5, 55.2, 250.7]"] by simp

section \<open>Interpolation: clamps and bracketing pair\<close>


lemma bracket_scan_hit:
  assumes "sorted_wrt (<) (map fst p)" "Suc i < length p"
    "fst (p ! i) \<le> day" "day \<le> fst (p ! Suc i)"
  shows "bracket_scan day p = Some (bracket_value p i day)"
  using assms
proof (induction day p arbitrary: i rule: bracket_scan.induct)
  case (1 day d0 v0 d1 v1 rest)
  have lt: "d0 < d1" using "1.prems"(1) by simp
  show ?case
  proof (cases "d0 \<le> day \<and> day \<le> d1")
    case True
    show ?thesis
    proof (cases i)
      case 0
      then show ?thesis using True lt by (simp add: bracket_value_def)
    next
      case (Suc k)
      have "d1 \<le> fst (((d1, v1) # rest) ! k)"
      proof (cases k)
        case 0 then show ?thesis by simp
      next
        case (Suc m)
        then have "m < length rest" using "1.prems"(2) \<open>i = Suc k\<close> by simp
        then have "fst (rest ! m) \<in> set (map fst rest)" by (metis length_map nth_map nth_mem)
        then show ?thesis using "1.prems"(1) Suc by auto
      qed
      then have "d1 \<le> day" using "1.prems"(3) Suc by simp
      then have dd: "day = d1" using True by simp
      have "k = 0"
      proof (rule ccontr)
        assume "k \<noteq> 0"
        then obtain m where m: "k = Suc m" by (cases k) auto
        then have "m < length rest" using "1.prems"(2) \<open>i = Suc k\<close> by simp
        then have "fst (rest ! m) \<in> set (map fst rest)" by (metis length_map nth_map nth_mem)
        then have "d1 < fst (rest ! m)" using "1.prems"(1) by auto
        then show False using "1.prems"(3) Suc m dd by simp
      qed
      then show ?thesis using True lt Suc dd by (simp add: bracket_value_def)
    qed
  next
    case False
    then obtain k where k: "i = Suc k" using "1.prems"(3,4) by (cases i) auto
    have "bracket_scan day ((d1, v1) # rest) = Some (bracket_value ((d1, v1) # rest) k day)"
      using "1.IH" [OF False, of k] "1.prems" k by simp
    moreover have "bracket_scan day ((d0, v0) # (d1, v1) # rest) = bracket_scan day ((d1, v1) # rest)"
      using False by auto
    moreover have "bracket_value ((d0, v0) # (d1, v1) # rest) (Suc k) day
                   = bracket_value ((d1, v1) # rest) k day"
      by (simp add: bracket_value_def)
    ultimately show ?thesis using k by simp
  qed
qed (simp_all)

lemma bracket_scan5_eq:
  "sorted_wrt (<) (map fst p) \<Longrightarrow> bracket_scan5 day p = Inr (bracket_scan day p)"
  by (induction day p rule: bracket_scan.induct) auto

lemma linear_interpolate5_eq:
  "p \<noteq> [] \<Longrightarrow> sorted_wrt (<) (map fst p) \<Longrightarrow>
   linear_interpolate5 day p = Inr (linear_interpolate day p)"
  by (simp add: linear_interpolate5_def linear_interpolate_def bracket_scan5_eq bind_res_def
      split: option.splits)

lemma sorted_fst_le:
  assumes "sorted_wrt (<) (map fst p)" "i \<le> j" "j < length (p::profile)"
  shows "fst (p ! i) \<le> fst (p ! j)"
proof (cases "i = j")
  case True then show ?thesis by simp
next
  case False
  then have "i < j" using assms(2) by simp
  then have "map fst p ! i < map fst p ! j"
    using assms(1,3) by (simp add: sorted_wrt_iff_nth_less)
  then show ?thesis using assms \<open>i < j\<close> by simp
qed

lemma sorted_fst_inj:
  assumes "sorted_wrt (<) (map fst p)" "i < length (p::profile)" "j < length p"
    "fst (p ! i) = fst (p ! j)"
  shows "i = j"
proof (rule ccontr)
  assume "i \<noteq> j"
  then consider "i < j" | "j < i" by linarith
  then show False
  proof cases
    case 1
    then have "map fst p ! i < map fst p ! j"
      using assms(1,3) by (simp add: sorted_wrt_iff_nth_less)
    then show False using assms 1 by simp
  next
    case 2
    then have "map fst p ! j < map fst p ! i"
      using assms(1,2) by (simp add: sorted_wrt_iff_nth_less)
    then show False using assms 2 by simp
  qed
qed

lemma linear_interpolate_bracket:
  assumes "sorted_wrt (<) (map fst p)" "Suc i < length p"
    "fst (p ! i) \<le> day" "day \<le> fst (p ! Suc i)"
  shows "linear_interpolate day p = bracket_value p i day"
proof -
  have ne: "p \<noteq> []" using assms(2) by auto
  have hd0: "hd p = p ! 0" using ne by (simp add: hd_conv_nth)
  have lastn: "last p = p ! (length p - 1)" using ne by (simp add: last_conv_nth)
  have lt: "fst (p ! i) < fst (p ! Suc i)"
    using assms(1,2) sorted_wrt_iff_nth_less [of "(<)" "map fst p"] by simp
  show ?thesis
  proof (cases "day \<le> fst (hd p)")
    case True
    have "fst (p ! 0) \<le> fst (p ! i)" using assms(1,2) by (intro sorted_fst_le) simp_all
    then have e: "fst (p ! i) = fst (p ! 0)" "day = fst (p ! 0)" using True hd0 assms(3) by simp_all
    then have "i = 0" using sorted_fst_inj [OF assms(1), of i 0] assms(2) ne by simp
    then show ?thesis using True hd0 e ne by (simp add: linear_interpolate_def bracket_value_def)
  next
    case False
    show ?thesis
    proof (cases "fst (last p) \<le> day")
      case True
      have "fst (p ! Suc i) \<le> fst (p ! (length p - 1))"
        using assms(1,2) by (intro sorted_fst_le) simp_all
      then have e: "fst (p ! Suc i) = fst (p ! (length p - 1))" "day = fst (p ! Suc i)"
        using True lastn assms(4) by simp_all
      then have "Suc i = length p - 1"
        using sorted_fst_inj [OF assms(1), of "Suc i" "length p - 1"] assms(2) by simp
      then show ?thesis using True False lastn e ne lt
        by (simp add: linear_interpolate_def bracket_value_def)
    next
      case F2: False
      show ?thesis using False F2 ne bracket_scan_hit [OF assms]
        by (simp add: linear_interpolate_def)
    qed
  qed
qed


lemma linear_interpolate_right:
  assumes "p \<noteq> []" "sorted_wrt (<) (map fst p)" "fst (last p) \<le> day"
  shows "linear_interpolate day p = snd (last p)"
proof (cases "day \<le> fst (hd p)")
  case True
  have hd0: "hd p = p ! 0" using assms(1) by (simp add: hd_conv_nth)
  have lastn: "last p = p ! (length p - 1)" using assms(1) by (simp add: last_conv_nth)
  have "fst (p ! 0) \<le> fst (p ! (length p - 1))"
    using assms(1,2) by (intro sorted_fst_le) simp_all
  then have "fst (p ! 0) = fst (p ! (length p - 1))" using True assms(3) hd0 lastn by simp
  then have "0 = length p - 1"
    using sorted_fst_inj [OF assms(2), of 0 "length p - 1"] assms(1) by simp
  then show ?thesis using True assms(1) hd0 lastn by (simp add: linear_interpolate_def)
next
  case False
  then show ?thesis using assms by (simp add: linear_interpolate_def)
qed

text \<open>
  Claim C7. For a non-empty profile whose days increase strictly and any integer day,
  \<open>linear_interpolate\<close> (in both scripts, which agree and raise nothing) returns the first
  value at or before the first day, the last value at or after the last day, and for every
  bracketing pair \<open>d0 \<le> day \<le> d1\<close> the value \<open>v0 + (v1-v0)*(day-d0)/(d1-d0)\<close>.
  On the profile \<open>[(0,0.7),(15,0.7),(21,0.8)]\<close>: 0.7 at days -5 and 0, 0.8 at days 100 and
  21, and 0.75 at day 18.
\<close>

theorem C7_linear_interpolate:
  "profile \<noteq> [] \<Longrightarrow> sorted_wrt (<) (map fst profile) \<Longrightarrow>
   linear_interpolate5 day profile = Inr (linear_interpolate day profile) \<and>
   (day \<le> fst (hd profile) \<longrightarrow> linear_interpolate day profile = snd (hd profile)) \<and>
   (fst (last profile) \<le> day \<longrightarrow> linear_interpolate day profile = snd (last profile)) \<and>
   (\<forall>i. Suc i < length profile \<and> fst (profile ! i) \<le> day \<and> day \<le> fst (profile ! Suc i)
        \<longrightarrow> linear_interpolate day profile = bracket_value profile i day) \<and>
   linear_interpolate (- 5) [(0, 0.7), (15, 0.7), (21, 0.8)] = 0.7 \<and>
   linear_interpolate 0 [(0, 0.7), (15, 0.7), (21, 0.8)] = 0.7 \<and>
   linear_interpolate 100 [(0, 0.7), (15, 0.7), (21, 0.8)] = 0.8 \<and>
   linear_interpolate 21 [(0, 0.7), (15, 0.7), (21, 0.8)] = 0.8 \<and>
   linear_interpolate 18 [(0, 0.7), (15, 0.7), (21, 0.8)] = 0.75"
proof -
  assume ne: "profile \<noteq> []" and so: "sorted_wrt (<) (map fst profile)"
  have a: "linear_interpolate5 day profile = Inr (linear_interpolate day profile)"
    using ne so by (rule linear_interpolate5_eq)
  have b: "day \<le> fst (hd profile) \<longrightarrow> linear_interpolate day profile = snd (hd profile)"
    using ne by (simp add: linear_interpolate_def)
  have c: "fst (last profile) \<le> day \<longrightarrow> linear_interpolate day profile = snd (last profile)"
    using ne so by (simp add: linear_interpolate_right)
  have d: "\<forall>i. Suc i < length profile \<and> fst (profile ! i) \<le> day \<and> day \<le> fst (profile ! Suc i)
        \<longrightarrow> linear_interpolate day profile = bracket_value profile i day"
    using so by (simp add: linear_interpolate_bracket)
  have e: "linear_interpolate (- 5) [(0, 0.7), (15, 0.7), (21, 0.8)] = 0.7"
    "linear_interpolate 0 [(0, 0.7), (15, 0.7), (21, 0.8)] = 0.7"
    "linear_interpolate 100 [(0, 0.7), (15, 0.7), (21, 0.8)] = 0.8"
    "linear_interpolate 21 [(0, 0.7), (15, 0.7), (21, 0.8)] = 0.8"
    "linear_interpolate 18 [(0, 0.7), (15, 0.7), (21, 0.8)] = 0.75"
    by (simp_all add: linear_interpolate_def)
  show ?thesis using a b c d e by blast
qed

theorem C7_linear_interpolate_witness:
  "[(0, 0.7), (15, 0.7), (21, 0.8 :: real)] \<noteq> [] \<and>
   sorted_wrt (<) (map fst [(0 :: int, 0.7 :: real), (15, 0.7), (21, 0.8)]) \<and>
   linear_interpolate5 18 [(0, 0.7), (15, 0.7), (21, 0.8)] = Inr 0.75 \<and>
   bracket_value [(0, 0.7), (15, 0.7), (21, 0.8)] 1 18 = 0.75"
  using C7_linear_interpolate [of "[(0, 0.7), (15, 0.7), (21, 0.8)]" 18]
  by (simp add: bracket_value_def)

section \<open>Irrigation calculator\<close>


lemma round_half_even_mono: "x \<le> y \<Longrightarrow> round_half_even x \<le> round_half_even y"
proof -
  assume xy: "x \<le> y"
  have fl: "\<lfloor>x\<rfloor> \<le> \<lfloor>y\<rfloor>" using xy by (rule floor_mono)
  have lo: "\<And>z. \<lfloor>z\<rfloor> \<le> round_half_even z" by (simp add: round_half_even_def Let_def)
  have hi: "\<And>z. round_half_even z \<le> \<lfloor>z\<rfloor> + 1" by (simp add: round_half_even_def Let_def)
  show ?thesis
  proof (cases "\<lfloor>x\<rfloor> = \<lfloor>y\<rfloor>")
    case True
    then show ?thesis using xy by (auto simp: round_half_even_def Let_def)
  next
    case False
    then have "\<lfloor>x\<rfloor> + 1 \<le> \<lfloor>y\<rfloor>" using fl by simp
    then show ?thesis using lo [of y] hi [of x] by linarith
  qed
qed

lemma round_half_even_int: "round_half_even (of_int n) = n"
  by (simp add: round_half_even_def)

lemma py_round2_mono: "x \<le> y \<Longrightarrow> py_round2 x \<le> py_round2 y"
  by (simp add: py_round2_def round_half_even_mono divide_right_mono)

lemma py_round2_zero: "py_round2 0 = 0"
  by (simp add: py_round2_def round_half_even_def)

lemma py_round2_nonneg: "0 \<le> x \<Longrightarrow> 0 \<le> py_round2 x"
  using py_round2_mono [of 0 x] by (simp add: py_round2_zero)

text \<open>main5.py computes the available water and the irrigation time as the specification words them.\<close>

lemma soil5_spec:
  "soil_available_water_depth5 vwc rz fc pwp = spec_available_water_depth vwc rz fc pwp"
  by (simp add: soil_available_water_depth5_def spec_available_water_depth_def Let_def
      split: option.splits)

lemma soil_eq_soil5:
  "0 < rz \<Longrightarrow> soil_available_water_depth vwc rz fc pwp = soil_available_water_depth5 vwc rz fc pwp"
  by (simp add: soil_available_water_depth5_def soil_available_water_depth_def Let_def
      split: option.splits)

lemma irrigation_time5_spec:
  "irrigation_time5 kc et0 area flow = spec_irrigation_time kc et0 avail area flow"
  by (auto simp: irrigation_time5_def spec_irrigation_time_def Let_def max_def mult_nonneg_nonneg)



lemma round_half_even_upper: "of_int (round_half_even z) \<le> z + 1 / 2"
proof -
  define f where "f = \<lfloor>z\<rfloor>"
  have a: "of_int f \<le> z" unfolding f_def by linarith
  have "of_int (if z - of_int f < 1 / 2 then f else if 1 / 2 < z - of_int f then f + 1
                else if even f then f else f + 1) \<le> z + 1 / 2"
    using a by auto
  then show ?thesis unfolding round_half_even_def Let_def f_def .
qed

lemma py_round2_upper: "py_round2 x \<le> x + 1 / 200"
proof -
  have "of_int (round_half_even (x * 100)) \<le> x * 100 + 1 / 2" by (rule round_half_even_upper)
  then show ?thesis by (simp add: py_round2_def field_simps)
qed

lemma avail_mono:
  assumes "0 \<le> rz" "v \<le> (v'::real)"
  shows "min (max 0 (v / 100 - p) * rz) t \<le> min (max 0 (v' / 100 - p) * rz) t"
proof -
  have "max 0 (v / 100 - p) \<le> max 0 (v' / 100 - p)" using assms(2) by simp
  then have "max 0 (v / 100 - p) * rz \<le> max 0 (v' / 100 - p) * rz"
    using assms(1) by (rule mult_right_mono)
  then show ?thesis by simp
qed

lemma soil_mono:
  "0 \<le> rz \<Longrightarrow> v \<le> v' \<Longrightarrow>
   soil_available_water_depth (Some v) rz fc pwp \<le> soil_available_water_depth (Some v') rz fc pwp"
  by (auto simp: soil_available_water_depth_def Let_def intro!: py_round2_mono avail_mono)

lemma soil5_mono:
  "v \<le> v' \<Longrightarrow>
   soil_available_water_depth5 (Some v) rz fc pwp \<le> soil_available_water_depth5 (Some v') rz fc pwp"
  by (auto simp: soil_available_water_depth5_def Let_def intro!: py_round2_mono avail_mono)

lemma soil5_bounds:
  assumes "0 < rz" "pwp < fc"
  shows "0 \<le> soil_available_water_depth5 v rz fc pwp"
    and "soil_available_water_depth5 v rz fc pwp \<le> py_round2 ((fc - pwp) * rz / 100)"
proof -
  have taw: "(fc / 100 - pwp / 100) * rz = (fc - pwp) * rz / 100" by (simp add: field_simps)
  have tpos: "0 \<le> (fc - pwp) * rz / 100" using assms by simp
  show "0 \<le> soil_available_water_depth5 v rz fc pwp"
  proof (cases v)
    case None then show ?thesis by (simp add: soil_available_water_depth5_def)
  next
    case (Some x)
    have "0 \<le> min (max 0 (x / 100 - pwp / 100) * rz) ((fc / 100 - pwp / 100) * rz)"
      using assms tpos by (simp add: taw)
    then show ?thesis using Some assms
      by (simp add: soil_available_water_depth5_def Let_def py_round2_nonneg)
  qed
  show "soil_available_water_depth5 v rz fc pwp \<le> py_round2 ((fc - pwp) * rz / 100)"
  proof (cases v)
    case None then show ?thesis using tpos by (simp add: soil_available_water_depth5_def py_round2_nonneg)
  next
    case (Some x)
    have "min (max 0 (x / 100 - pwp / 100) * rz) ((fc / 100 - pwp / 100) * rz)
          \<le> (fc - pwp) * rz / 100" by (simp add: taw)
    then have "py_round2 (min (max 0 (x / 100 - pwp / 100) * rz) ((fc / 100 - pwp / 100) * rz))
          \<le> py_round2 ((fc - pwp) * rz / 100)" by (rule py_round2_mono)
    then show ?thesis using Some assms
      by (simp add: soil_available_water_depth5_def Let_def)
  qed
qed


text \<open>
  Claim C4 is violated by main.py: \<open>irrigation_time\<close> there clamps only the product
  \<open>ET0 * Kc\<close> for the volume and returns the raw product as ETc. With Kc = 0.8 and
  ET0 = -2 it returns ETc = -1.6 where the clamped factors give 0; with Kc = -1 and ET0 = -2
  it returns 8000 seconds and ETc = 2 where the clamped factors give no irrigation.
\<close>

theorem C4_irrigation_time_unclamped:
  "irrigation_time 0.8 (- 2) 60 10 9 = ((0, - 1.6), []) \<and>
   spec_irrigation_time 0.8 (- 2) 60 10 9 = ((0, 0), []) \<and>
   irrigation_time5 0.8 (- 2) 10 9 = ((0, 0), []) \<and>
   irrigation_time (- 1) (- 2) 60 10 9 = ((8000, 2), []) \<and>
   spec_irrigation_time (- 1) (- 2) 60 10 9 = ((0, 0), [])"
  by (simp add: irrigation_time_def irrigation_time5_def spec_irrigation_time_def Let_def)

text \<open>
  Claim C5 is violated by main.py: \<open>soil_available_water_depth\<close> there has no test of the
  root zone depth, so a negative depth gives a negative result (-35 mm at 50 percent
  moisture and -100 mm) where the claim, and main5.py, give 0.
\<close>

theorem C5_soil_available_water_depth_negative_root_zone:
  "soil_available_water_depth (Some 50) (- 100) 42 15 = - 35 \<and>
   spec_available_water_depth (Some 50) (- 100) 42 15 = 0 \<and>
   soil_available_water_depth5 (Some 50) (- 100) 42 15 = 0"
  by (simp add: soil_available_water_depth_def soil_available_water_depth5_def
        spec_available_water_depth_def Let_def py_round2_def round_half_even_def)

text \<open>
  Claim C6, as amended. For fixed root zone depth and soil percentages the result is
  non-decreasing in \<open>vwc_pct\<close> (main5.py for every depth, main.py for a depth that is not
  negative). For a positive depth and field capacity above wilting point both scripts agree
  and the result lies between 0 and the capacity \<open>(fc - pwp) * rz / 100\<close> rounded to two
  decimals, hence at most the capacity plus 0.005.
\<close>

theorem C6_available_water_monotone_bounded:
  "(vwc \<le> vwc' \<longrightarrow>
      soil_available_water_depth5 (Some vwc) rz fc pwp
        \<le> soil_available_water_depth5 (Some vwc') rz fc pwp) \<and>
   (0 \<le> rz \<and> vwc \<le> vwc' \<longrightarrow>
      soil_available_water_depth (Some vwc) rz fc pwp
        \<le> soil_available_water_depth (Some vwc') rz fc pwp) \<and>
   (0 < rz \<and> pwp < fc \<longrightarrow>
      soil_available_water_depth v rz fc pwp = soil_available_water_depth5 v rz fc pwp \<and>
      0 \<le> soil_available_water_depth5 v rz fc pwp \<and>
      soil_available_water_depth5 v rz fc pwp \<le> py_round2 ((fc - pwp) * rz / 100) \<and>
      soil_available_water_depth5 v rz fc pwp \<le> (fc - pwp) * rz / 100 + 1 / 200)"
proof (intro conjI impI)
  assume "vwc \<le> vwc'"
  then show "soil_available_water_depth5 (Some vwc) rz fc pwp
        \<le> soil_available_water_depth5 (Some vwc') rz fc pwp" by (rule soil5_mono)
next
  assume "0 \<le> rz \<and> vwc \<le> vwc'"
  then show "soil_available_water_depth (Some vwc) rz fc pwp
        \<le> soil_available_water_depth (Some vwc') rz fc pwp" by (simp add: soil_mono)
next
  assume "0 < rz \<and> pwp < fc"
  then show "soil_available_water_depth v rz fc pwp = soil_available_water_depth5 v rz fc pwp"
    by (simp add: soil_eq_soil5)
next
  assume "0 < rz \<and> pwp < fc"
  then show "0 \<le> soil_available_water_depth5 v rz fc pwp" by (simp add: soil5_bounds(1))
next
  assume "0 < rz \<and> pwp < fc"
  then show "soil_available_water_depth5 v rz fc pwp \<le> py_round2 ((fc - pwp) * rz / 100)"
    by (simp add: soil5_bounds(2))
next
  assume h: "0 < rz \<and> pwp < fc"
  have "soil_available_water_depth5 v rz fc pwp \<le> py_round2 ((fc - pwp) * rz / 100)"
    using h by (simp add: soil5_bounds(2))
  then show "soil_available_water_depth5 v rz fc pwp \<le> (fc - pwp) * rz / 100 + 1 / 200"
    using py_round2_upper [of "(fc - pwp) * rz / 100"] by linarith
qed

theorem C6_available_water_monotone_bounded_witness:
  "(20 :: real) \<le> 30 \<and> (0 :: real) < 600 \<and> (15 :: real) < 42 \<and>
   soil_available_water_depth5 (Some 20) 600 42 15 \<le> soil_available_water_depth5 (Some 30) 600 42 15 \<and>
   soil_available_water_depth (Some 20) 600 42 15 \<le> soil_available_water_depth (Some 30) 600 42 15 \<and>
   0 \<le> soil_available_water_depth5 (Some 25) 600 42 15 \<and>
   soil_available_water_depth5 (Some 25) 600 42 15 \<le> py_round2 ((42 - 15) * 600 / 100)"
  using C6_available_water_monotone_bounded
          [where vwc = 20 and vwc' = 30 and rz = 600 and fc = 42 and pwp = 15 and v = "Some 25"]
  by simp

text \<open>
  Claim C6 as stated fails: at 50 percent moisture and a root zone of 100.02 mm the capacity
  is 27.0054 mm and the rounded result is 27.01 mm, above the stated upper bound.
\<close>

theorem C6_available_water_counterexample:
  "\<not> (soil_available_water_depth5 (Some 50) (10002 / 100) 42 15 \<le> (42 - 15) * (10002 / 100) / 100) \<and>
   \<not> (soil_available_water_depth (Some 50) (10002 / 100) 42 15 \<le> (42 - 15) * (10002 / 100) / 100)"
  by (simp add: soil_available_water_depth5_def soil_available_water_depth_def Let_def
        py_round2_def round_half_even_def)


section \<open>Day clock\<close>





section \<open>Pump commands of the main loop\<close>

















lemmas pump_eval = tick_def daily_pump_decision_def pump_off_check_def pass_at_def
  initial_pump_state_def Let_def



text \<open>
  Claim C10, as amended. When the PUMP\_ON publish of the daily decision fails, the pump
  state after the pass is off with target 0. When the PUMP\_OFF publish of the timeout check
  fails, the state is unchanged (running, same start and target). PUMP\_OFF is attempted
  again by the next pass that reaches the check without a daily rollover; a pass that ends
  at the failed reconnect attempts nothing and leaves the state as it is.
\<close>

theorem C10_publish_failure:
  "(\<not> pump_running s \<and> \<not> reconnect_failed i \<and> rollover i = Some p \<and> p > 0.5 \<and> \<not> daily_published i
      \<longrightarrow> \<not> pump_running (fst (tick i s)) \<and> current_pump_run_duration (fst (tick i s)) = 0 \<and>
          snd (tick i s) = [(PUMP_ON, False)]) \<and>
   (pump_running s \<and> t - pump_start_time s \<ge> current_pump_run_duration s
      \<longrightarrow> pump_off_check t False s = (s, [(PUMP_OFF, False)])) \<and>
   (pump_running s \<and> \<not> reconnect_failed i \<and> rollover i = None \<and> due s i \<and> \<not> off_published i
      \<longrightarrow> tick i s = (s, [(PUMP_OFF, False)]) \<and>
          (\<not> reconnect_failed i' \<and> rollover i' = None \<and> time_check i \<le> time_check i'
             \<longrightarrow> snd (tick i' (fst (tick i s))) = [(PUMP_OFF, off_published i')]) \<and>
          (reconnect_failed i' \<longrightarrow> tick i' (fst (tick i s)) = (s, [])))"
  by (auto simp: tick_def daily_pump_decision_def pump_off_check_def due_def Let_def)

theorem C10_publish_failure_witness:
  "tick (pass_at (Some 1800) 0 False) initial_pump_state
     = (initial_pump_state, [(PUMP_ON, False)]) \<and>
   tick (pass_at None 1820 False)
     \<lparr>pump_running = True, pump_start_time = 0, current_pump_run_duration = 1800\<rparr>
     = (\<lparr>pump_running = True, pump_start_time = 0, current_pump_run_duration = 1800\<rparr>,
        [(PUMP_OFF, False)]) \<and>
   snd (tick (pass_at None 1850 True)
         (fst (tick (pass_at None 1820 False)
            \<lparr>pump_running = True, pump_start_time = 0, current_pump_run_duration = 1800\<rparr>)))
     = [(PUMP_OFF, True)]"
  using C10_publish_failure
    [where s = initial_pump_state and i = "pass_at (Some 1800) 0 False" and p = 1800
       and t = 0 and i' = "pass_at None 0 True"]
    C10_publish_failure
    [where s = "\<lparr>pump_running = True, pump_start_time = 0, current_pump_run_duration = 1800\<rparr>"
       and i = "pass_at None 1820 False" and p = 0 and t = 1820 and i' = "pass_at None 1850 True"]
  by (simp add: pump_eval due_def)

text \<open>
  Claim C10 as stated fails where it says that PUMP\_OFF is attempted again on the next
  pass: after the failed PUMP\_OFF at 1820 s, a next pass whose MQTT reconnect fails ends at
  \<open>continue\<close> and attempts nothing, and a next pass with a daily rollover that computes
  5000 s replaces the target and attempts nothing either.
\<close>

theorem C10_publish_failure_counterexample:
  "tick (pass_at None 1820 False)
     \<lparr>pump_running = True, pump_start_time = 0, current_pump_run_duration = 1800\<rparr>
     = (\<lparr>pump_running = True, pump_start_time = 0, current_pump_run_duration = 1800\<rparr>,
        [(PUMP_OFF, False)]) \<and>
   tick \<lparr>reconnect_failed = True, rollover = None, daily_published = True,
         time_on = 1850, time_check = 1850, off_published = True\<rparr>
     \<lparr>pump_running = True, pump_start_time = 0, current_pump_run_duration = 1800\<rparr>
     = (\<lparr>pump_running = True, pump_start_time = 0, current_pump_run_duration = 1800\<rparr>, []) \<and>
   tick (pass_at (Some 5000) 1850 True)
     \<lparr>pump_running = True, pump_start_time = 0, current_pump_run_duration = 1800\<rparr>
     = (\<lparr>pump_running = True, pump_start_time = 0, current_pump_run_duration = 5000\<rparr>, [])"
  by (simp add: pump_eval)

section \<open>Configuration messages\<close>

lemmas config_eval = sub_cb_def set_config_def config_complete_def required_configs_def
  initial_callback_state_def TOPIC_SOIL_SUB_def TOPIC_CONFIG_CROP_def
  TOPIC_CONFIG_PLANTING_DATE_def TOPIC_CONFIG_PLANTS_NUMBER_def TOPIC_CONFIG_PLANTS_SPACING_def
  TOPIC_CONFIG_ROW_SPACING_def TOPIC_CONFIG_PUMP_FLOWRATE_def crop_kc_profile_def
  dec_int_def dec_float_def dec_unsigned_def dec_nat_def py_lower_def ascii_lower_def
  py_strip_def is_space_def Let_def

text \<open>
  Whatever \<open>int()\<close> and \<open>float()\<close> make of the payload is stored under the key, whatever
  its sign.
\<close>

lemma sub_cb_stores_any_number:
  "to_int (py_strip msg) = Some n \<Longrightarrow>
   config_params (fst (sub_cb to_int to_float TOPIC_CONFIG_PLANTS_NUMBER msg s)) ''plants_number''
     = Some (ConfigInt n)"
  by (simp add: sub_cb_def set_config_def Let_def TOPIC_SOIL_SUB_def TOPIC_CONFIG_CROP_def
        TOPIC_CONFIG_PLANTING_DATE_def TOPIC_CONFIG_PLANTS_NUMBER_def)

lemma sub_cb_stores_any_flow:
  "to_float (py_strip msg) = Some v \<Longrightarrow>
   config_params (fst (sub_cb to_int to_float TOPIC_CONFIG_PUMP_FLOWRATE msg s)) ''pump_flow_lph''
     = Some (ConfigFloat v)"
  by (simp add: sub_cb_def set_config_def Let_def TOPIC_SOIL_SUB_def TOPIC_CONFIG_CROP_def
        TOPIC_CONFIG_PLANTING_DATE_def TOPIC_CONFIG_PLANTS_NUMBER_def
        TOPIC_CONFIG_PLANTS_SPACING_def TOPIC_CONFIG_ROW_SPACING_def
        TOPIC_CONFIG_PUMP_FLOWRATE_def)

text \<open>
  Claim C9 is violated by main.py. In \<open>sub_cb\<close> the value is assigned to \<open>config_params\<close>
  before its sign is looked at, and the sign only selects the log line. The payloads -5, 0,
  -2.5 and 0 on the plant-count, plant-spacing, row-spacing and pump-flow topics are each
  logged as an error and stored all the same, and \<open>wait_for_configuration\<close> then reports the
  configuration complete.
\<close>

theorem C9_nonpositive_config_accepted:
  "snd (sub_cb dec_int dec_float TOPIC_CONFIG_PLANTS_NUMBER ''-5'' initial_callback_state)
     = [DEBUG, ERROR] \<and>
   config_params
     (fst (sub_cb dec_int dec_float TOPIC_CONFIG_PLANTS_NUMBER ''-5'' initial_callback_state))
     ''plants_number'' = Some (ConfigInt (- 5)) \<and>
   fst (wait_for_configuration dec_int dec_float
          [Received TOPIC_CONFIG_CROP ''onion'',
           Received TOPIC_CONFIG_PLANTING_DATE ''2024-01-15'',
           Received TOPIC_CONFIG_PLANTS_NUMBER ''-5'',
           Received TOPIC_CONFIG_PLANTS_SPACING ''0'',
           Received TOPIC_CONFIG_ROW_SPACING ''-2.5'',
           Received TOPIC_CONFIG_PUMP_FLOWRATE ''0'']
          initial_callback_state) = True \<and>
   map (config_params
          (snd (wait_for_configuration dec_int dec_float
             [Received TOPIC_CONFIG_CROP ''onion'',
              Received TOPIC_CONFIG_PLANTING_DATE ''2024-01-15'',
              Received TOPIC_CONFIG_PLANTS_NUMBER ''-5'',
              Received TOPIC_CONFIG_PLANTS_SPACING ''0'',
              Received TOPIC_CONFIG_ROW_SPACING ''-2.5'',
              Received TOPIC_CONFIG_PUMP_FLOWRATE ''0'']
             initial_callback_state)))
       [''plants_number'', ''plant_spacing_cm'', ''row_spacing_cm'', ''pump_flow_lph'']
     = [Some (ConfigInt (- 5)), Some (ConfigFloat 0), Some (ConfigFloat (- 2.5)),
        Some (ConfigFloat 0)]"
  by (simp add: config_eval)

section \<open>Daily ET0 update\<close>

lemma update_et0_5_nonneg:
  "0 \<le> last_et0 s \<Longrightarrow> 0 \<le> last_et0 (update_et0_5 f w s)"
  by (auto simp: update_et0_5_def Let_def split: option.splits sum.splits prod.splits)

text \<open>
  In main5.py the stored ET0 is never negative: it starts at 0 and every daily update keeps
  it at or above 0, whatever the fetch and the prediction do.
\<close>

lemma run_et0_5_nonneg:
  "0 \<le> last_et0 s \<Longrightarrow> 0 \<le> last_et0 (run_et0_5 f ws s)"
  by (induction ws arbitrary: s) (simp_all add: update_et0_5_nonneg)

lemma update_et0_stores_raw:
  "f [t, h, e] = Inr v \<Longrightarrow> last_et0 (update_et0 f (Some (t, h, e)) s) = v"
  by (simp add: update_et0_def Let_def)

lemma update_et0_5_stores_clamped:
  "f [t, h, e] = Inr v \<Longrightarrow> last_et0 (update_et0_5 f (Some (t, h, e)) s) = max 0 v"
  by (simp add: update_et0_5_def Let_def)

lemma update_et0_keeps_on_failure:
  "last_tmax s \<noteq> None \<Longrightarrow> last_et0 (update_et0 f None s) = last_et0 s"
  by (auto simp: update_et0_def)

text \<open>
  Claim C3 is violated by main.py. After a successful fetch it stores whatever the
  prediction function returns, with no clamp, and on a failed fetch it keeps that value; a
  negative prediction is therefore stored and passed on. main5.py stores \<open>max(0.0, raw)\<close> on
  the same input, and its stored ET0 stays at or above 0 over every sequence of daily
  updates.
\<close>

theorem C3_et0_stored_unclamped:
  "(predict_function [tmax, rh, energy] = Inr raw \<longrightarrow>
      last_et0 (update_et0 predict_function (Some (tmax, rh, energy)) s) = raw \<and>
      last_et0 (update_et0 predict_function None
                  (update_et0 predict_function (Some (tmax, rh, energy)) s)) = raw \<and>
      last_et0 (update_et0_5 predict_function (Some (tmax, rh, energy)) s) = max 0 raw) \<and>
   (0 \<le> last_et0 s \<longrightarrow> 0 \<le> last_et0 (run_et0_5 predict_function ws s))"
proof (intro conjI impI)
  assume p: "predict_function [tmax, rh, energy] = Inr raw"
  show a: "last_et0 (update_et0 predict_function (Some (tmax, rh, energy)) s) = raw"
    using p by (rule update_et0_stores_raw)
  have "last_tmax (update_et0 predict_function (Some (tmax, rh, energy)) s) \<noteq> None"
    by (simp add: update_et0_def Let_def split: sum.splits)
  then show "last_et0 (update_et0 predict_function None
                  (update_et0 predict_function (Some (tmax, rh, energy)) s)) = raw"
    using a by (simp add: update_et0_keeps_on_failure)
  show "last_et0 (update_et0_5 predict_function (Some (tmax, rh, energy)) s) = max 0 raw"
    using p by (rule update_et0_5_stores_clamped)
next
  assume "0 \<le> last_et0 s"
  then show "0 \<le> last_et0 (run_et0_5 predict_function ws s)" by (rule run_et0_5_nonneg)
qed

theorem C3_et0_stored_unclamped_witness:
  "last_et0 (update_et0 (\<lambda>features. Inr (- 1.22)) (Some (30, 200, 12)) initial_et0_state)
     = - 1.22 \<and>
   last_et0 (update_et0 (\<lambda>features. Inr (- 1.22)) (Some (30, 200, 12)) initial_et0_state) < 0 \<and>
   last_et0 (update_et0_5 (\<lambda>features. Inr (- 1.22)) (Some (30, 200, 12)) initial_et0_state) = 0 \<and>
   0 \<le> last_et0 (run_et0_5 (\<lambda>features. Inr (- 1.22)) [Some (30, 200, 12), None]
                 initial_et0_state)"
  using C3_et0_stored_unclamped
    [where predict_function = "\<lambda>features. Inr (- 1.22)" and tmax = 30 and rh = 200
       and energy = 12 and raw = "- 1.22" and s = initial_et0_state
       and ws = "[Some (30, 200, 12), None]"]
  by (simp add: initial_et0_state_def)

end
